theory Spec2Isabelle
  imports Main "HOL-Library.Char_ord"
begin

section \<open>Python values and exceptions\<close>

text \<open>
  The exceptions the modelled code can raise. A function that can raise returns
  \<open>error + 'a\<close>, with \<open>Inl\<close> carrying the exception.
\<close>

datatype error = TypeError | IndexError | AttributeError | RuntimeError

text \<open>
  The arguments of the character helpers are dynamically typed (\<open>Any\<close>). An argument is a
  \<open>str\<close>, an \<open>int\<close> (which includes \<open>bool\<close>), \<open>None\<close>, or an object of any other type
  (a float, a list, ...), of which the helpers only observe the truth value.
\<close>

datatype pyobj = PStr string | PInt int | PNone | PObj bool

fun truthy :: "pyobj \<Rightarrow> bool" where
  "truthy (PStr s) = (s \<noteq> [])"
| "truthy (PInt i) = (i \<noteq> 0)"
| "truthy PNone = False"
| "truthy (PObj t) = t"

text \<open>\<open>isinstance(x, str)\<close> or \<open>isinstance(x, int)\<close>: the inputs that are characters.\<close>

fun is_character :: "pyobj \<Rightarrow> bool" where
  "is_character (PStr s) = True"
| "is_character (PInt i) = True"
| "is_character PNone = False"
| "is_character (PObj t) = False"

text \<open>Python's \<open>ord\<close>: defined on strings of length one, \<open>TypeError\<close> otherwise.\<close>

fun ord :: "string \<Rightarrow> error + int" where
  "ord [c] = Inr (of_char c)"
| "ord s = Inl TypeError"

text \<open>
  \<open>a <= x <= b\<close> with \<open>a\<close>, \<open>b\<close> integers and \<open>x\<close> the result of \<open>to_ord\<close>: ordering an
  \<open>int\<close> against \<open>None\<close> raises \<open>TypeError\<close>.
\<close>

fun between :: "int \<Rightarrow> int option \<Rightarrow> int \<Rightarrow> error + bool" where
  "between a None b = Inl TypeError"
| "between a (Some n) b = Inr (a \<le> n \<and> n \<le> b)"

text \<open>The value of type \<open>Optional[int]\<close> as an object again, for the nested calls.\<close>

fun of_ord :: "int option \<Rightarrow> pyobj" where
  "of_ord None = PNone"
| "of_ord (Some n) = PInt n"

section \<open>\<open>ReconUtils\<close>: character classes\<close>

fun to_ord :: "pyobj \<Rightarrow> error + int option" where
  "to_ord (PStr s) = (case ord s of Inl e \<Rightarrow> Inl e | Inr n \<Rightarrow> Inr (Some n))"
| "to_ord (PInt i) = Inr (Some i)"
| "to_ord PNone = Inr None"
| "to_ord (PObj t) = Inr None"

definition is_ident_start_char :: "pyobj \<Rightarrow> error + bool" where
  "is_ident_start_char char =
     (if truthy char then
        (case to_ord char of
           Inl e \<Rightarrow> Inl e
         | Inr c \<Rightarrow>
            (case between 65 c 90 of
               Inl e \<Rightarrow> Inl e
             | Inr True \<Rightarrow> Inr True
             | Inr False \<Rightarrow>
                (if c = Some 95 then Inr True else between 97 c 122)))
      else Inr False)"

definition is_digit :: "pyobj \<Rightarrow> error + bool" where
  "is_digit char =
     (if truthy char then
        (case to_ord char of
           Inl e \<Rightarrow> Inl e
         | Inr c \<Rightarrow> between 48 c 57)
      else Inr False)"

definition is_space :: "pyobj \<Rightarrow> error + bool" where
  "is_space char =
     (if truthy char then
        (case to_ord char of
           Inl e \<Rightarrow> Inl e
         | Inr c \<Rightarrow> Inr (c = Some 32 \<or> c = Some 9))
      else Inr False)"

definition is_ident_char :: "pyobj \<Rightarrow> error + bool" where
  "is_ident_char char =
     (if truthy char then
        (case to_ord char of
           Inl e \<Rightarrow> Inl e
         | Inr c \<Rightarrow>
            (if c = Some 45 then Inr True
             else (case is_digit (of_ord c) of
                     Inl e \<Rightarrow> Inl e
                   | Inr True \<Rightarrow> Inr True
                   | Inr False \<Rightarrow> is_ident_start_char (of_ord c))))
      else Inr False)"

text \<open>The loop of \<open>is_ident\<close> over the characters of the string, first character included.\<close>

fun is_ident_loop :: "string \<Rightarrow> error + bool" where
  "is_ident_loop [] = Inr True"
| "is_ident_loop (c # cs) =
     (case is_ident_char (PStr [c]) of
        Inl e \<Rightarrow> Inl e
      | Inr False \<Rightarrow> Inr False
      | Inr True \<Rightarrow> is_ident_loop cs)"

definition is_ident :: "string \<Rightarrow> error + bool" where
  "is_ident v =
     (if length v = 0 then Inr False
      else (case is_ident_start_char (PStr [v ! 0]) of
              Inl e \<Rightarrow> Inl e
            | Inr False \<Rightarrow> Inr False
            | Inr True \<Rightarrow> is_ident_loop v))"

text \<open>
  The character classes as the specification words them: an identifier starts with one of
  \<open>[A-Za-z_]\<close> and continues with \<open>[A-Za-z0-9_-]\<close>.
\<close>

definition spec_ident_start :: "char \<Rightarrow> bool" where
  "spec_ident_start c \<longleftrightarrow>
     (CHR ''A'' \<le> c \<and> c \<le> CHR ''Z'') \<or> (CHR ''a'' \<le> c \<and> c \<le> CHR ''z'') \<or> c = CHR ''_''"

definition spec_ident_cont :: "char \<Rightarrow> bool" where
  "spec_ident_cont c \<longleftrightarrow>
     (CHR ''A'' \<le> c \<and> c \<le> CHR ''Z'') \<or> (CHR ''a'' \<le> c \<and> c \<le> CHR ''z'') \<or>
     (CHR ''0'' \<le> c \<and> c \<le> CHR ''9'') \<or> c = CHR ''_'' \<or> c = CHR ''-''"

section \<open>\<open>InputMessage\<close>: the parser's cursor\<close>

record InputMessage =
  message :: string
  index :: int

text \<open>The constructor: the cursor starts at index 0.\<close>

definition InputMessage_init :: "string \<Rightarrow> InputMessage" where
  "InputMessage_init s = \<lparr>message = s, index = 0\<rparr>"

text \<open>
  Python's \<open>s[i]\<close> on a string: a negative index counts from the end, and an index outside
  \<open>-len(s) .. len(s) - 1\<close> raises \<open>IndexError\<close>.
\<close>

definition str_getitem :: "string \<Rightarrow> int \<Rightarrow> error + string" where
  "str_getitem s i =
     (let n = int (length s); j = (if i < 0 then n + i else i)
      in if 0 \<le> j \<and> j < n then Inr [s ! nat j] else Inl IndexError)"

definition is_cont :: "InputMessage \<Rightarrow> bool" where
  "is_cont m = (if index m \<ge> int (length (message m)) then False else True)"

definition head :: "InputMessage \<Rightarrow> error + string" where
  "head m = (if is_cont m then str_getitem (message m) (index m) else Inr '''')"

definition step :: "InputMessage \<Rightarrow> (error + string) \<times> InputMessage" where
  "step m = (let m' = m\<lparr>index := index m + 1\<rparr> in (head m', m'))"

text \<open>
  An interleaving of calls on one cursor. \<open>run\<close> performs them in order and collects what
  each call returns; an exception ends the run.
\<close>

datatype call = Head | Step

fun run :: "call list \<Rightarrow> InputMessage \<Rightarrow> error + (string list \<times> InputMessage)" where
  "run [] m = Inr ([], m)"
| "run (Head # cs) m =
     (case head m of
        Inl e \<Rightarrow> Inl e
      | Inr h \<Rightarrow> (case run cs m of Inl e \<Rightarrow> Inl e | Inr (outs, m') \<Rightarrow> Inr (h # outs, m')))"
| "run (Step # cs) m =
     (case step m of
        (Inl e, m1) \<Rightarrow> Inl e
      | (Inr h, m1) \<Rightarrow> (case run cs m1 of Inl e \<Rightarrow> Inl e | Inr (outs, m') \<Rightarrow> Inr (h # outs, m')))"

text \<open>
  What the calls are expected to return, in the words of the claim: the character at the
  current position when the position is inside the text, the empty string otherwise; a
  step moves the position forward by one.
\<close>

definition char_at :: "string \<Rightarrow> nat \<Rightarrow> string" where
  "char_at s i = (if i < length s then [s ! i] else '''')"

fun expected :: "string \<Rightarrow> nat \<Rightarrow> call list \<Rightarrow> string list" where
  "expected s i [] = []"
| "expected s i (Head # cs) = char_at s i # expected s i cs"
| "expected s i (Step # cs) = char_at s (Suc i) # expected s (Suc i) cs"

fun steps :: "call list \<Rightarrow> nat" where
  "steps [] = 0"
| "steps (Head # cs) = steps cs"
| "steps (Step # cs) = Suc (steps cs)"

section \<open>Structured values\<close>

text \<open>
  Python numbers, as the number writer can receive them (\<open>Union[int, float]\<close>). An \<open>int\<close>
  is unbounded; \<open>bool\<close> is a subclass of \<open>int\<close>, so \<open>True\<close> and \<open>False\<close> are numbers too.
  A \<open>float\<close> is not a number, infinite, or finite. A finite float is named by its sign and
  by the shortest decimal digits \<open>d1 d2 ... dn\<close> and decimal point position \<open>p\<close> that read
  back as the same float, its value being \<open>0.d1d2...dn * 10^p\<close>; these are the digits
  Python prints for it. Zero has the one digit \<open>0\<close> at position 1.
\<close>

datatype pyfloat = FloatNaN | FloatInf bool | FloatFinite bool string int

datatype pynum = PyInt int | PyBool bool | PyFloatNum pyfloat

text \<open>
  Modelled from the spec: the classes of \<open>swimai/structures/structs.py\<close> (\<open>Item\<close>,
  \<open>Field\<close>, \<open>Attr\<close>, \<open>Slot\<close>, \<open>Value\<close>, \<open>Record\<close>, \<open>Text\<close>, \<open>Num\<close>, \<open>Bool\<close>,
  \<open>Extant\<close>, \<open>Absent\<close>) are imported by the writer but are not among the sources. Section 3
  of the specification gives the variants: a Value is a Record (an ordered sequence of
  Items), a Text, a Num, a Bool, or one of the singletons Extant and Absent; an Item is a
  Value or a Field; a Field is an Attr or a Slot, each with a key and a value.
\<close>

datatype Value = Record "Item list" | Text string | Num pynum | Bool bool | Extant | Absent
and Item = ValueItem Value | Attr Value Value | Slot Value Value

text \<open>
  Modelled from the spec: the property \<open>size\<close> of a Value is its item count (section 4.A).
  Only a Record holds items; the parser test
  \<open>test_parse_literal_empty_existing_builder\<close> expects size 0 of a Text.
\<close>

fun Value_size :: "Value \<Rightarrow> nat" where
  "Value_size (Record items) = length items"
| "Value_size v = 0"

fun is_Record :: "Value \<Rightarrow> bool" where
  "is_Record (Record items) = True"
| "is_Record v = False"

section \<open>\<open>OutputMessage\<close>\<close>

text \<open>
  An \<open>OutputMessage\<close> holds one string, \<open>message\<close>; it is modelled by that string. The
  object defines neither \<open>__bool__\<close> nor \<open>__len__\<close>, so in a condition it is true
  whenever it is not \<open>None\<close>.
\<close>

type_synonym OutputMessage = string

text \<open>Python's \<open>str\<close> of an \<open>int\<close>: decimal digits, with a minus sign when negative.\<close>

definition digit_char :: "nat \<Rightarrow> char" where
  "digit_char d = ''0123456789'' ! d"

fun str_nat :: "nat \<Rightarrow> string" where
  "str_nat n = (if n < 10 then [digit_char n] else str_nat (n div 10) @ [digit_char (n mod 10)])"

declare str_nat.simps [simp del]

definition str_int :: "int \<Rightarrow> string" where
  "str_int i = (if i < 0 then CHR ''-'' # str_nat (nat (- i)) else str_nat (nat i))"

text \<open>
  Python's \<open>str\<close> of a \<open>float\<close> (the \<open>repr\<close> format): \<open>nan\<close>, \<open>inf\<close> and \<open>-inf\<close>; exponent
  notation, with at least two exponent digits, when the decimal point position is at most
  -4 or above 16; positional notation otherwise, always with a decimal point.
\<close>

definition exponent_digits :: "nat \<Rightarrow> string" where
  "exponent_digits e = (if e < 10 then CHR ''0'' # str_nat e else str_nat e)"

definition float_digits :: "string \<Rightarrow> int \<Rightarrow> string" where
  "float_digits ds p =
     (if p \<le> - 4 \<or> p > 16 then
        (if length ds \<le> 1 then ds else hd ds # CHR ''.'' # tl ds) @ ''e'' @
        (if p - 1 < 0 then ''-'' else ''+'') @ exponent_digits (nat \<bar>p - 1\<bar>)
      else if p \<le> 0 then ''0.'' @ replicate (nat (- p)) (CHR ''0'') @ ds
      else if nat p < length ds then take (nat p) ds @ ''.'' @ drop (nat p) ds
      else ds @ replicate (nat p - length ds) (CHR ''0'') @ ''.0'')"

fun float_str :: "pyfloat \<Rightarrow> string" where
  "float_str FloatNaN = ''nan''"
| "float_str (FloatInf negative) = (if negative then ''-inf'' else ''inf'')"
| "float_str (FloatFinite negative ds p) = (if negative then ''-'' else []) @ float_digits ds p"

text \<open>A float is true in a condition unless it is \<open>0.0\<close> or \<open>-0.0\<close>.\<close>

fun float_nonzero :: "pyfloat \<Rightarrow> bool" where
  "float_nonzero FloatNaN = True"
| "float_nonzero (FloatInf negative) = True"
| "float_nonzero (FloatFinite negative ds p) = list_ex (\<lambda>c. c \<noteq> CHR ''0'') ds"

text \<open>
  Reading a text as a decimal numeral, most significant digit first: the sense in which
  \<open>str\<close> of a number is its decimal representation.
\<close>

definition digit_value :: "char \<Rightarrow> nat" where
  "digit_value c = of_char c - 48"

definition decimal_value :: "string \<Rightarrow> nat" where
  "decimal_value s = foldl (\<lambda>acc c. 10 * acc + digit_value c) 0 s"

fun str_num :: "pynum \<Rightarrow> string" where
  "str_num (PyInt i) = str_int i"
| "str_num (PyBool b) = (if b then ''True'' else ''False'')"
| "str_num (PyFloatNum f) = float_str f"

text \<open>The truth value of a number: false exactly for \<open>0\<close>, \<open>False\<close>, \<open>0.0\<close> and \<open>-0.0\<close>.\<close>

fun num_truthy :: "pynum \<Rightarrow> bool" where
  "num_truthy (PyInt i) = (i \<noteq> 0)"
| "num_truthy (PyBool b) = b"
| "num_truthy (PyFloatNum f) = float_nonzero f"

text \<open>
  A decimal text representation, in the words of the claim: an optional minus sign, one or
  more digits, and optionally a point followed by one or more digits.
\<close>

definition is_digit_string :: "string \<Rightarrow> bool" where
  "is_digit_string s = (s \<noteq> [] \<and> list_all (\<lambda>c. c \<in> set ''0123456789'') s)"

definition spec_unsigned_decimal :: "string \<Rightarrow> bool" where
  "spec_unsigned_decimal s =
     (is_digit_string s \<or>
      (is_digit_string (takeWhile (\<lambda>c. c \<noteq> CHR ''.'') s) \<and>
       dropWhile (\<lambda>c. c \<noteq> CHR ''.'') s \<noteq> [] \<and>
       is_digit_string (tl (dropWhile (\<lambda>c. c \<noteq> CHR ''.'') s))))"

definition spec_decimal_text :: "string \<Rightarrow> bool" where
  "spec_decimal_text s =
     (case s of
        [] \<Rightarrow> False
      | c # cs \<Rightarrow> if c = CHR ''-'' then spec_unsigned_decimal cs else spec_unsigned_decimal s)"

text \<open>
  \<open>append\<close> of a \<open>str\<close> or of another \<open>OutputMessage\<close> concatenates the text
  (\<open>append_str\<close>); \<open>append\<close> of a number concatenates its \<open>str\<close> (\<open>append_num\<close>). The
  writers call it with no other type.
\<close>

definition append_str :: "OutputMessage \<Rightarrow> string \<Rightarrow> OutputMessage" where
  "append_str out s = out @ s"

definition append_num :: "OutputMessage \<Rightarrow> pynum \<Rightarrow> OutputMessage" where
  "append_num out n = out @ str_num n"

definition create :: "string \<Rightarrow> OutputMessage" where
  "create chars = (if chars \<noteq> [] then append_str [] chars else [])"

definition last_char :: "OutputMessage \<Rightarrow> string" where
  "last_char out = (if length out > 0 then [last out] else [])"

text \<open>\<open>if text: output.append(text)\<close> with \<open>text\<close> an optional \<open>OutputMessage\<close>.\<close>

fun append_message :: "OutputMessage \<Rightarrow> OutputMessage option \<Rightarrow> OutputMessage" where
  "append_message out None = out"
| "append_message out (Some t) = append_str out t"

text \<open>\<open>if item_text: output.append(item_text)\<close> with \<open>item_text\<close> a \<open>str\<close>.\<close>

definition append_text :: "OutputMessage \<Rightarrow> string \<Rightarrow> OutputMessage" where
  "append_text out t = (if t \<noteq> [] then append_str out t else out)"

section \<open>The Recon writers\<close>

definition StringWriter_write :: "string \<Rightarrow> OutputMessage" where
  "StringWriter_write v = append_str (append_text (create [CHR 0x22]) v) [CHR 0x22]"

definition NumberWriter_write :: "pynum \<Rightarrow> OutputMessage" where
  "NumberWriter_write v = (if num_truthy v then append_num (create []) v else create [])"

definition BoolWriter_write :: "bool \<Rightarrow> OutputMessage" where
  "BoolWriter_write v = (if v then create ''true'' else create ''false'')"

definition IdentWriter_write :: "string \<Rightarrow> OutputMessage" where
  "IdentWriter_write v = append_text (create []) v"

definition write_text :: "string \<Rightarrow> error + OutputMessage" where
  "write_text v =
     (case is_ident v of
        Inl e \<Rightarrow> Inl e
      | Inr True \<Rightarrow> Inr (IdentWriter_write v)
      | Inr False \<Rightarrow> Inr (StringWriter_write v))"

definition write_number :: "pynum \<Rightarrow> OutputMessage" where
  "write_number v = NumberWriter_write v"

definition write_bool :: "bool \<Rightarrow> OutputMessage" where
  "write_bool v = BoolWriter_write v"

definition write_absent :: OutputMessage where
  "write_absent = create []"

text \<open>
  The branch of \<open>BlockWriter.write\<close> an item takes: an Attr, or a Value that is not a
  Record, is written inline; a Slot or a Record goes through the separator branch.
\<close>

fun is_Slot :: "Item \<Rightarrow> bool" where
  "is_Slot (Slot k v) = True"
| "is_Slot i = False"

fun inline_item :: "Item \<Rightarrow> bool" where
  "inline_item (Attr k v) = True"
| "inline_item (ValueItem v) = (\<not> is_Record v)"
| "inline_item (Slot k v) = False"

text \<open>
  What the separator branch appends before the item, and the new \<open>in_braces\<close>.
\<close>

definition separator :: "Item \<Rightarrow> OutputMessage \<Rightarrow> bool \<Rightarrow> bool \<Rightarrow> OutputMessage \<times> bool" where
  "separator item out first in_braces =
     (if \<not> first then (append_str out '','', in_braces)
      else if is_Slot item then
        (if length out > 0 \<and> last_char out \<noteq> ''('' then (append_str out ''{'', True)
         else (out, in_braces))
      else (out, in_braces))"

text \<open>
  \<open>write_value\<close> returns \<open>None\<close> where the source falls off the end of the function: for
  an empty Record and for Extant. \<open>write_item\<close> reads \<open>.message\<close> of what it gets, which
  raises \<open>AttributeError\<close> on \<open>None\<close>. \<open>BlockWriter_write\<close> is the loop of the block
  writer, with the output so far, \<open>first\<close> and \<open>in_braces\<close> as its state.
\<close>

function (sequential) write_value :: "Value \<Rightarrow> error + OutputMessage option"
and write_item :: "Item \<Rightarrow> error + string"
and AttrWriter_write :: "Value \<Rightarrow> Value \<Rightarrow> error + OutputMessage"
and SlotWriter_write :: "Value \<Rightarrow> Value \<Rightarrow> error + OutputMessage"
and BlockWriter_write :: "Item list \<Rightarrow> OutputMessage \<Rightarrow> bool \<Rightarrow> bool \<Rightarrow> error + OutputMessage"
where
  "write_value (Record items) =
     (if Value_size (Record items) > 0 then
        (case BlockWriter_write items (create []) True False of
           Inl e \<Rightarrow> Inl e
         | Inr out \<Rightarrow> Inr (Some out))
      else Inr None)"
| "write_value (Text s) =
     (case write_text s of Inl e \<Rightarrow> Inl e | Inr out \<Rightarrow> Inr (Some out))"
| "write_value (Num n) = Inr (Some (write_number n))"
| "write_value (Bool b) = Inr (Some (write_bool b))"
| "write_value Absent = Inr (Some write_absent)"
| "write_value Extant = Inr None"
| "write_item (Attr k v) = AttrWriter_write k v"
| "write_item (Slot k v) = SlotWriter_write k v"
| "write_item (ValueItem v) =
     (case write_value v of
        Inl e \<Rightarrow> Inl e
      | Inr None \<Rightarrow> Inl AttributeError
      | Inr (Some out) \<Rightarrow> Inr out)"
| "AttrWriter_write k v =
     (case write_value k of
        Inl e \<Rightarrow> Inl e
      | Inr key_text \<Rightarrow>
         (if v \<noteq> Extant then
            (case write_value v of
               Inl e \<Rightarrow> Inl e
             | Inr value_text \<Rightarrow>
                (if Value_size v = 0
                 then Inr (append_str (append_message (create ''@'') key_text) ''('')
                 else Inr (append_str (append_message
                             (append_str (append_message (create ''@'') key_text) ''('')
                             value_text) '')'')))
          else Inr (append_message (create ''@'') key_text)))"
| "SlotWriter_write k v =
     (case write_value k of
        Inl e \<Rightarrow> Inl e
      | Inr key_text \<Rightarrow>
         (case write_value v of
            Inl e \<Rightarrow> Inl e
          | Inr value_text \<Rightarrow>
             Inr (append_message (append_str (append_message (create []) key_text) '':'') value_text)))"
| "BlockWriter_write [] out first in_braces =
     Inr (if in_braces then append_str out ''}'' else out)"
| "BlockWriter_write (item # items) out first in_braces =
     (if inline_item item then
        (case write_item item of
           Inl e \<Rightarrow> Inl e
         | Inr item_text \<Rightarrow> BlockWriter_write items (append_text out item_text) first in_braces)
      else
        (case write_item item of
           Inl e \<Rightarrow> Inl e
         | Inr item_text \<Rightarrow>
            BlockWriter_write items
              (append_text (fst (separator item out first in_braces)) item_text)
              False
              (snd (separator item out first in_braces))))"
  by pat_completeness auto
termination
  by (relation "measure (case_sum
        (case_sum (\<lambda>v. 2 * size v) (\<lambda>i. 2 * size i))
        (case_sum (\<lambda>(k, v). 2 * (size k + size v) + 1)
          (case_sum (\<lambda>(k, v). 2 * (size k + size v) + 1)
            (\<lambda>(items, out, first, in_braces). 2 * size_list size items + 1))))")
    auto

section \<open>Retry strategies\<close>

text \<open>
  The three strategy classes. \<open>retries\<close> starts at 0 and is only incremented or reset, so
  it is a natural number; the limit is whatever integer the caller passed, or \<open>None\<close>.
  Delays are whole seconds.
\<close>

datatype RetryStrategy =
    RetryStrategy
  | IntervalStrategy (retries_limit: "int option") (delay: int) (retries: nat)
  | ExponentialStrategy (retries_limit: "int option") (max_interval: int) (retries: nat)

text \<open>
  \<open>retry\<close> returns its boolean, the duration it slept (\<open>None\<close> when it did not sleep) and
  the strategy object after the call.
\<close>

fun retry :: "RetryStrategy \<Rightarrow> bool \<times> int option \<times> RetryStrategy" where
  "retry RetryStrategy = (False, None, RetryStrategy)"
| "retry (IntervalStrategy lim d r) =
     (if (case lim of None \<Rightarrow> True | Some l \<Rightarrow> l > int r)
      then (True, Some d, IntervalStrategy lim d (r + 1))
      else (False, None, IntervalStrategy lim d r))"
| "retry (ExponentialStrategy lim m r) =
     (if (case lim of None \<Rightarrow> True | Some l \<Rightarrow> l \<ge> int r)
      then (True, Some (min (2 ^ r) m), ExponentialStrategy lim m (r + 1))
      else (False, None, ExponentialStrategy lim m r))"

fun reset :: "RetryStrategy \<Rightarrow> RetryStrategy" where
  "reset RetryStrategy = RetryStrategy"
| "reset (IntervalStrategy lim d r) = IntervalStrategy lim d 0"
| "reset (ExponentialStrategy lim m r) = ExponentialStrategy lim m 0"

text \<open>
  The retry limit as the claim words it for both limited strategies: another retry is
  granted exactly when there is no limit or the retries made so far are strictly below it.
\<close>

definition spec_retry_allowed :: "int option \<Rightarrow> nat \<Rightarrow> bool" where
  "spec_retry_allowed lim r = (case lim of None \<Rightarrow> True | Some l \<Rightarrow> int r < l)"

section \<open>Connections and the connection pool\<close>

datatype ConnectionStatus = CLOSED | CONNECTING | IDLE | RUNNING

text \<open>
  The class of the downlink views of \<open>swimos\<close> is not among the sources; a view is the
  record of the attributes the connection code reads: its hash, which keys it in its
  manager, the host and scheme, the two persistence flags and the route.
\<close>

record DownlinkView =
  view_hash :: nat
  view_host_uri :: string
  view_scheme :: string
  view_keep_linked :: bool
  view_keep_synced :: bool
  view_route :: string

text \<open>
  A \<open>_DownlinkManager\<close> is modelled by its dictionary of views, keyed by hash, and the
  \<open>_DownlinkManagerPool\<close> by its dictionary of managers, keyed by route. Both are
  association lists in insertion order, as Python dictionaries are.
\<close>

type_synonym DownlinkManager = "(nat \<times> DownlinkView) list"

type_synonym DownlinkManagerPool = "(string \<times> DownlinkManager) list"

text \<open>\<open>d[k] = v\<close> on a dictionary: replace in place, or insert at the end.\<close>

fun dict_set :: "('k \<times> 'v) list \<Rightarrow> 'k \<Rightarrow> 'v \<Rightarrow> ('k \<times> 'v) list" where
  "dict_set [] k v = [(k, v)]"
| "dict_set ((k', v') # d) k v = (if k' = k then (k, v) # d else (k', v') # dict_set d k v)"

record WSConnection =
  host_uri :: string
  scheme :: string
  connected :: bool
  websocket :: "string option"
  status :: ConnectionStatus
  auth_message :: "string option"
  init_message :: "string option"
  keep_linked :: bool
  keep_synced :: bool
  subscribers :: DownlinkManagerPool
  authenticated :: bool

text \<open>
  The constructor of \<open>_WSConnection\<close>. The retry strategy it receives is the pool's own
  strategy object, shared by every connection of the pool; it is kept in the pool.
\<close>

definition WSConnection_init :: "string \<Rightarrow> string \<Rightarrow> bool \<Rightarrow> bool \<Rightarrow> WSConnection" where
  "WSConnection_init h s kl ks =
     \<lparr>host_uri = h, scheme = s, connected = False, websocket = None, status = CLOSED,
      auth_message = None, init_message = None, keep_linked = kl, keep_synced = ks,
      subscribers = [], authenticated = False\<rparr>"

definition should_reconnect :: "WSConnection \<Rightarrow> bool" where
  "should_reconnect c = (keep_linked c \<or> keep_synced c)"

definition has_subscribers :: "WSConnection \<Rightarrow> bool" where
  "has_subscribers c = (length (subscribers c) > 0)"

text \<open>
  The views currently subscribed to a connection: the views of all its managers.
\<close>

definition current_subscribers :: "WSConnection \<Rightarrow> DownlinkView list" where
  "current_subscribers c = concat (map (\<lambda>(route, manager). map snd manager) (subscribers c))"

text \<open>
  The reading of the two flags that the claim gives: the logical OR of the flag over the
  current subscribers.
\<close>

definition spec_keep_linked :: "WSConnection \<Rightarrow> bool" where
  "spec_keep_linked c = list_ex view_keep_linked (current_subscribers c)"

definition spec_keep_synced :: "WSConnection \<Rightarrow> bool" where
  "spec_keep_synced c = list_ex view_keep_synced (current_subscribers c)"

text \<open>
  Connections are objects shared between the pool's dictionary and the views, so they live
  in a store and are named by their position in it. The pool is the dictionary from host
  URI to connection, in insertion order, and the default retry strategy.
\<close>

record ConnectionPool =
  connections :: "(string \<times> nat) list"
  retry_strategy :: RetryStrategy
  store :: "WSConnection list"

definition ConnectionPool_init :: "RetryStrategy \<Rightarrow> ConnectionPool" where
  "ConnectionPool_init rs = \<lparr>connections = [], retry_strategy = rs, store = []\<rparr>"

text \<open>Every connection the dictionary names exists in the store.\<close>

definition wf_pool :: "ConnectionPool \<Rightarrow> bool" where
  "wf_pool p = list_all (\<lambda>(h, r). r < length (store p)) (connections p)"

definition get_connection ::
  "ConnectionPool \<Rightarrow> string \<Rightarrow> string \<Rightarrow> bool \<Rightarrow> bool \<Rightarrow> nat \<times> ConnectionPool" where
  "get_connection p h s kl ks =
     (case map_of (connections p) h of
        None \<Rightarrow>
          (length (store p),
           p\<lparr>connections := dict_set (connections p) h (length (store p)),
             store := store p @ [WSConnection_init h s kl ks]\<rparr>)
      | Some r \<Rightarrow>
          (if status (store p ! r) = CLOSED
           then (length (store p),
                 p\<lparr>connections := dict_set (connections p) h (length (store p)),
                   store := store p @ [WSConnection_init h s kl ks]\<rparr>)
           else (r, p)))"

text \<open>
  The two outcomes in the words of the claim: \<open>pooled_open\<close> holds when the pool has a
  connection for the host whose status is not \<open>CLOSED\<close>; \<open>new_pool\<close> is the pool after a
  new connection has been constructed and stored under the host.
\<close>

definition pooled_open :: "ConnectionPool \<Rightarrow> string \<Rightarrow> bool" where
  "pooled_open p h =
     (case map_of (connections p) h of None \<Rightarrow> False | Some r \<Rightarrow> status (store p ! r) \<noteq> CLOSED)"

definition new_pool :: "ConnectionPool \<Rightarrow> string \<Rightarrow> string \<Rightarrow> bool \<Rightarrow> bool \<Rightarrow> ConnectionPool" where
  "new_pool p h s kl ks =
     p\<lparr>connections := dict_set (connections p) h (length (store p)),
       store := store p @ [WSConnection_init h s kl ks]\<rparr>"

text \<open>
  The handshake is the environment's: \<open>net\<close> lists the outcomes of the coming connection
  attempts, \<open>True\<close> for a socket and \<open>False\<close> for an exception. \<open>open_loop\<close> is the loop of
  \<open>_open\<close> while the status is \<open>CONNECTING\<close>; with no outcome left the attempt has not
  returned, which is the result \<open>None\<close>. The time slept by the strategy is not kept.
\<close>

datatype net_error = ConnectFailed

fun open_loop ::
  "WSConnection \<Rightarrow> RetryStrategy \<Rightarrow> bool list \<Rightarrow>
   ((net_error + unit) \<times> WSConnection \<times> RetryStrategy \<times> bool list) option" where
  "open_loop c rs [] = None"
| "open_loop c rs (ok # net) =
     (if ok then Some (Inr (), c\<lparr>websocket := Some (host_uri c), status := IDLE\<rparr>, reset rs, net)
      else if should_reconnect c then
        (if fst (retry rs) then open_loop c (snd (snd (retry rs))) net
         else Some (Inl ConnectFailed, c\<lparr>status := CLOSED\<rparr>, snd (snd (retry rs)), net))
      else Some (Inl ConnectFailed, c\<lparr>status := CLOSED\<rparr>, rs, net))"

definition WSConnection_open ::
  "WSConnection \<Rightarrow> RetryStrategy \<Rightarrow> bool list \<Rightarrow>
   ((net_error + unit) \<times> WSConnection \<times> RetryStrategy \<times> bool list) option" where
  "WSConnection_open c rs net =
     (if status c = CLOSED then
        (case open_loop (c\<lparr>status := CONNECTING\<rparr>) rs net of
           None \<Rightarrow> None
         | Some (Inl e, c', rs', net') \<Rightarrow> Some (Inl e, c', rs', net')
         | Some (Inr u, c', rs', net') \<Rightarrow> Some (Inr (), c'\<lparr>connected := True\<rparr>, rs', net'))
      else Some (Inr (), c, rs, net))"

text \<open>
  \<open>_register_downlink_view\<close>: the view joins the manager of its route, which is created
  when the route has none. The downlink model the manager opens for its first view belongs
  to the missing classes; it sends its request over the socket that \<open>_subscribe\<close> has
  opened and changes none of the fields kept here. The \<open>did_open\<close> callback of the view
  is user code and is left out.
\<close>

definition register_downlink_view :: "DownlinkManagerPool \<Rightarrow> DownlinkView \<Rightarrow> DownlinkManagerPool" where
  "register_downlink_view managers view =
     (case map_of managers (view_route view) of
        None \<Rightarrow> dict_set managers (view_route view) (dict_set [] (view_hash view) view)
      | Some manager \<Rightarrow>
          dict_set managers (view_route view) (dict_set manager (view_hash view) view))"

definition subscribe ::
  "WSConnection \<Rightarrow> RetryStrategy \<Rightarrow> DownlinkView \<Rightarrow> bool list \<Rightarrow>
   ((net_error + unit) \<times> WSConnection \<times> RetryStrategy \<times> bool list) option" where
  "subscribe c rs view net =
     (if length (subscribers c) = 0 then
        (case WSConnection_open c rs net of
           None \<Rightarrow> None
         | Some (Inl e, c', rs', net') \<Rightarrow> Some (Inl e, c', rs', net')
         | Some (Inr u, c', rs', net') \<Rightarrow>
             Some (Inr (), c'\<lparr>subscribers := register_downlink_view (subscribers c') view\<rparr>,
                   rs', net'))
      else Some (Inr (), c\<lparr>subscribers := register_downlink_view (subscribers c) view\<rparr>,
                 rs, net))"

text \<open>
  \<open>_add_downlink_view\<close>: resolve the connection of the view's host, then subscribe the
  view to it. The result names the connection the view now points to.
\<close>

definition add_downlink_view ::
  "ConnectionPool \<Rightarrow> DownlinkView \<Rightarrow> bool list \<Rightarrow>
   ((net_error + nat) \<times> ConnectionPool \<times> bool list) option" where
  "add_downlink_view p view net =
     (case get_connection p (view_host_uri view) (view_scheme view)
             (view_keep_linked view) (view_keep_synced view) of
        (r, p1) \<Rightarrow>
          (case subscribe (store p1 ! r) (retry_strategy p1) view net of
             None \<Rightarrow> None
           | Some (Inl e, c', rs', net') \<Rightarrow>
               Some (Inl e, p1\<lparr>retry_strategy := rs', store := (store p1)[r := c']\<rparr>, net')
           | Some (Inr u, c', rs', net') \<Rightarrow>
               Some (Inr r, p1\<lparr>retry_strategy := rs', store := (store p1)[r := c']\<rparr>, net')))"

section \<open>Value downlink views\<close>

text \<open>
  A lane value is any Python object; \<open>'v\<close> stands for its type and \<open>None\<close> is the value of
  a model that has received nothing yet.
\<close>

record 'v ValueDownlinkModel =
  model_value :: "'v option"
  linked :: bool
  synced :: bool

text \<open>
  Modelled from the spec: \<open>CommandMessage\<close> is imported from \<open>swimai.warp\<close>, which is not
  among the sources. Section 3 gives a command envelope its node, its lane and a body.
\<close>

datatype 'v CommandMessage = CommandMessage "string option" "string option" 'v

text \<open>
  The coroutines a view hands to \<open>schedule_task\<close> of its client, with their arguments.
\<close>

datatype 'v task =
    AddDownlinkView
  | RemoveDownlinkView
  | GetValue
  | SendMessage "'v CommandMessage"

text \<open>
  The client, as far as scheduling goes: its three policy attributes (\<open>execute_on_exception\<close>
  stands for "a callback is set") and what it has done so far, namely the tasks it has
  handed to the event loop, oldest first, the warnings it has issued, the tracebacks it
  has printed, the times it has run the callback, and whether it has ended the process.
\<close>

record 'v SwimClient =
  debug :: bool
  terminate_on_exception :: bool
  execute_on_exception :: bool
  scheduled :: "'v task list"
  warnings :: nat
  tracebacks :: nat
  callbacks_run :: nat
  exited :: bool

text \<open>
  \<open>_handle_exception\<close>: warn; print the traceback when debugging; end the process when the
  client terminates on exceptions; otherwise run the callback when one is set.
\<close>

definition handle_exception :: "'v SwimClient \<Rightarrow> 'v SwimClient" where
  "handle_exception c =
     (let c1 = c\<lparr>warnings := warnings c + 1\<rparr>;
          c2 = (if debug c1 then c1\<lparr>tracebacks := tracebacks c1 + 1\<rparr> else c1)
      in if terminate_on_exception c2 then c2\<lparr>exited := True\<rparr>
         else if execute_on_exception c2 then c2\<lparr>callbacks_run := callbacks_run c2 + 1\<rparr>
         else c2)"

text \<open>
  \<open>schedule_task\<close>, the body in \<open>swim_client.py\<close>. Whether
  \<open>asyncio.run_coroutine_threadsafe\<close> takes the task or raises is the event loop's doing,
  given as \<open>accepts\<close>. When it takes the task the future is returned; when it raises, the
  exception is caught and passed to \<open>_handle_exception\<close>, and the call returns \<open>None\<close>.
  The result is whether a future was returned, and the client afterwards.

  Modelled from the spec: the decorator \<open>after_started\<close> around \<open>schedule_task\<close> comes
  from \<open>swimai/client/utils.py\<close>, which is not among the sources. Section 6 gives the
  executor's \<open>schedule(task, args...)\<close> no precondition; the decorator is taken to pass
  the call through, as for a client that has been started.
\<close>

definition schedule_task :: "'v SwimClient \<Rightarrow> 'v task \<Rightarrow> bool \<Rightarrow> bool \<times> 'v SwimClient" where
  "schedule_task c t accepts =
     (if accepts then (True, c\<lparr>scheduled := scheduled c @ [t]\<rparr>)
      else (False, handle_exception c))"

text \<open>
  The view with what it refers to: its own attributes, its client, its model (\<open>None\<close>
  until a manager attaches one) and its connection (a position in the store, \<open>None\<close> until
  the pool sets it).
\<close>

record 'v ValueDownlinkView =
  client :: "'v SwimClient"
  vd_host_uri :: "string option"
  node_uri :: "string option"
  lane_uri :: "string option"
  is_open :: bool
  initialised :: bool
  model :: "'v ValueDownlinkModel option"
  connection :: "nat option"

text \<open>
  \<open>get\<close>. With \<open>wait_sync\<close> the caller blocks on the future of the scheduled
  \<open>get_value\<close>; \<open>handle_result\<close> is what the event loop completes that future with.
  When no future came back, \<open>task.result()\<close> is read of \<open>None\<close>. Reading
  \<open>self.model.value\<close> or \<open>self.model.get_value\<close> of a view without a model, or \<open>result\<close>
  of \<open>None\<close>, raises \<open>AttributeError\<close>.
\<close>

definition ValueDownlinkView_get ::
  "'v ValueDownlinkView \<Rightarrow> bool \<Rightarrow> 'v option \<Rightarrow> bool \<Rightarrow>
   (error + 'v option) \<times> 'v ValueDownlinkView" where
  "ValueDownlinkView_get view wait_sync handle_result accepts =
     (if is_open view then
        (if wait_sync then
           (case model view of
              None \<Rightarrow> (Inl AttributeError, view)
            | Some m \<Rightarrow>
                (if fst (schedule_task (client view) GetValue accepts)
                 then (Inr handle_result,
                       view\<lparr>client := snd (schedule_task (client view) GetValue accepts)\<rparr>)
                 else (Inl AttributeError,
                       view\<lparr>client := snd (schedule_task (client view) GetValue accepts)\<rparr>)))
         else
           (case model view of
              None \<Rightarrow> (Inl AttributeError, view)
            | Some m \<Rightarrow> (Inr (model_value m), view)))
      else (Inl RuntimeError, view))"

text \<open>
  \<open>set\<close>: the command message is built and \<open>send_message\<close> with it is handed to
  \<open>schedule_task\<close>, whose result is dropped.
\<close>

definition ValueDownlinkView_set ::
  "'v ValueDownlinkView \<Rightarrow> 'v \<Rightarrow> bool \<Rightarrow> (error + unit) \<times> 'v ValueDownlinkView" where
  "ValueDownlinkView_set view v accepts =
     (if is_open view then
        (Inr (),
         view\<lparr>client := snd (schedule_task (client view)
            (SendMessage (CommandMessage (node_uri view) (lane_uri view) v)) accepts)\<rparr>)
      else (Inl RuntimeError, view))"

section \<open>Characters and their code points\<close>

lemma of_char_le_iff: "((of_char a :: int) \<le> of_char b) = (a \<le> b)"
proof -
  have "(of_char a :: int) = int (of_char a)" "(of_char b :: int) = int (of_char b)"
    by (simp_all only: of_nat_of_char)
  then show ?thesis
    by (simp only: less_eq_char_def of_nat_le_iff)
qed

lemma ord_upper_A: "(65 \<le> (of_char c :: int)) = (CHR ''A'' \<le> c)"
proof -
  have "(of_char (CHR ''A'') :: int) = 65" by simp
  then show ?thesis using of_char_le_iff [of "CHR ''A''" c] by (simp only:)
qed

lemma ord_upper_Z: "((of_char c :: int) \<le> 90) = (c \<le> CHR ''Z'')"
proof -
  have "(of_char (CHR ''Z'') :: int) = 90" by simp
  then show ?thesis using of_char_le_iff [of c "CHR ''Z''"] by (simp only:)
qed

lemma ord_lower_a: "(97 \<le> (of_char c :: int)) = (CHR ''a'' \<le> c)"
proof -
  have "(of_char (CHR ''a'') :: int) = 97" by simp
  then show ?thesis using of_char_le_iff [of "CHR ''a''" c] by (simp only:)
qed

lemma ord_lower_z: "((of_char c :: int) \<le> 122) = (c \<le> CHR ''z'')"
proof -
  have "(of_char (CHR ''z'') :: int) = 122" by simp
  then show ?thesis using of_char_le_iff [of c "CHR ''z''"] by (simp only:)
qed

lemma ord_digit_0: "(48 \<le> (of_char c :: int)) = (CHR ''0'' \<le> c)"
proof -
  have "(of_char (CHR ''0'') :: int) = 48" by simp
  then show ?thesis using of_char_le_iff [of "CHR ''0''" c] by (simp only:)
qed

lemma ord_digit_9: "((of_char c :: int) \<le> 57) = (c \<le> CHR ''9'')"
proof -
  have "(of_char (CHR ''9'') :: int) = 57" by simp
  then show ?thesis using of_char_le_iff [of c "CHR ''9''"] by (simp only:)
qed

lemma ord_underscore: "((of_char c :: int) = 95) = (c = CHR ''_'')"
proof -
  have "(of_char (CHR ''_'') :: int) = 95" by simp
  then show ?thesis using of_char_eq_iff [of c "CHR ''_''", where ?'a = int] by (simp only:)
qed

lemma ord_minus: "((of_char c :: int) = 45) = (c = CHR ''-'')"
proof -
  have "(of_char (CHR ''-'') :: int) = 45" by simp
  then show ?thesis using of_char_eq_iff [of c "CHR ''-''", where ?'a = int] by (simp only:)
qed

lemmas ord_ranges =
  ord_upper_A ord_upper_Z ord_lower_a ord_lower_z ord_digit_0 ord_digit_9 ord_underscore ord_minus

section \<open>The classifiers on integers and on one-character strings\<close>

lemma is_ident_start_char_int:
  "is_ident_start_char (PInt n) =
     Inr (n \<noteq> 0 \<and> (65 \<le> n \<and> n \<le> 90 \<or> n = 95 \<or> 97 \<le> n \<and> n \<le> 122))"
  by (auto simp add: is_ident_start_char_def split: bool.splits)

lemma is_digit_int: "is_digit (PInt n) = Inr (n \<noteq> 0 \<and> 48 \<le> n \<and> n \<le> 57)"
  by (simp add: is_digit_def)

lemma is_ident_start_char_str:
  "is_ident_start_char (PStr [c]) = Inr (spec_ident_start c)"
proof -
  have "is_ident_start_char (PStr [c]) =
      Inr (65 \<le> (of_char c :: int) \<and> (of_char c :: int) \<le> 90 \<or> (of_char c :: int) = 95 \<or>
           97 \<le> (of_char c :: int) \<and> (of_char c :: int) \<le> 122)"
    by (auto simp add: is_ident_start_char_def split: bool.splits)
  then show ?thesis
    unfolding ord_ranges spec_ident_start_def by (simp only: disj_ac)
qed

lemma is_ident_char_str:
  "is_ident_char (PStr [c]) = Inr (spec_ident_cont c)"
proof -
  let ?n = "of_char c :: int"
  have "is_ident_char (PStr [c]) =
      Inr (?n = 45 \<or> (48 \<le> ?n \<and> ?n \<le> 57) \<or>
           (65 \<le> ?n \<and> ?n \<le> 90 \<or> ?n = 95 \<or> 97 \<le> ?n \<and> ?n \<le> 122))"
    by (auto simp add: is_ident_char_def is_digit_int is_ident_start_char_int split: bool.splits)
  then show ?thesis
    unfolding ord_ranges spec_ident_cont_def by (simp only: disj_ac)
qed

lemma is_ident_loop_spec: "is_ident_loop cs = Inr (\<forall>c \<in> set cs. spec_ident_cont c)"
  by (induction cs) (simp_all add: is_ident_char_str split: bool.splits)

lemma spec_start_cont: "spec_ident_start c \<Longrightarrow> spec_ident_cont c"
  unfolding spec_ident_start_def spec_ident_cont_def by blast

lemma is_ident_spec:
  "is_ident s =
     Inr (s \<noteq> [] \<and> spec_ident_start (hd s) \<and> (\<forall>c \<in> set (tl s). spec_ident_cont c))"
proof (cases s)
  case Nil
  then show ?thesis by (simp add: is_ident_def)
next
  case (Cons c cs)
  then show ?thesis
    using spec_start_cont [of c]
    by (auto simp add: is_ident_def is_ident_start_char_str is_ident_loop_spec is_ident_char_str
        split: bool.splits)
qed

section \<open>Identifiers\<close>

text \<open>
  Claim C8. For every string \<open>s\<close>, \<open>is_ident(s)\<close> returns \<open>True\<close> if and only if \<open>s\<close> is
  not empty, its first character is one of \<open>[A-Za-z_]\<close> and each of the remaining
  characters is one of \<open>[A-Za-z0-9_-]\<close>. The call raises nothing.
\<close>

theorem is_ident_iff:
  "is_ident s =
     Inr (s \<noteq> [] \<and> spec_ident_start (hd s) \<and> (\<forall>c \<in> set (tl s). spec_ident_cont c))"
  by (rule is_ident_spec)

theorem is_ident_iff_witness:
  "is_ident ''abc-def'' = Inr True \<and> is_ident ''9lives'' = Inr False \<and> is_ident [] = Inr False"
  using is_ident_iff [of "''abc-def''"] is_ident_iff [of "''9lives''"] is_ident_iff [of "[]"]
  by (simp add: spec_ident_start_def spec_ident_cont_def)

section \<open>Inputs that are not characters\<close>

text \<open>
  Claim C7, as stated, fails: on an object that is neither a \<open>str\<close> nor an \<open>int\<close> and that
  is true in a condition (a non-zero float, a non-empty list), \<open>to_ord\<close> gives \<open>None\<close> and
  \<open>is_digit\<close> and \<open>is_ident_start_char\<close> then order an integer against \<open>None\<close>, which raises
  \<open>TypeError\<close>.
\<close>

theorem non_character_counterexample:
  "\<not> is_character (PObj True) \<and> to_ord (PObj True) = Inr None \<and>
   is_digit (PObj True) = Inl TypeError \<and> is_ident_start_char (PObj True) = Inl TypeError"
  by (simp add: is_digit_def is_ident_start_char_def)

text \<open>
  Claim C7, amended. For every input that is neither a \<open>str\<close> nor an \<open>int\<close>, \<open>to_ord\<close>
  yields \<open>None\<close>, and \<open>is_space\<close> and \<open>is_ident_char\<close> return \<open>False\<close>; \<open>is_digit\<close> and
  \<open>is_ident_start_char\<close> return \<open>False\<close> when the input is false in a condition, as \<open>None\<close>
  itself is.
\<close>

theorem non_character_classifiers:
  "\<not> is_character x \<Longrightarrow>
     to_ord x = Inr None \<and> is_space x = Inr False \<and> is_ident_char x = Inr False \<and>
     (\<not> truthy x \<longrightarrow> is_digit x = Inr False \<and> is_ident_start_char x = Inr False)"
  by (cases x) (simp_all add: is_space_def is_ident_char_def is_digit_def is_ident_start_char_def)

theorem non_character_classifiers_witness:
  "\<not> is_character PNone \<and> \<not> truthy PNone \<and> to_ord PNone = Inr None \<and>
   is_space PNone = Inr False \<and> is_ident_char PNone = Inr False \<and>
   is_digit PNone = Inr False \<and> is_ident_start_char PNone = Inr False \<and>
   \<not> is_character (PObj True) \<and> is_space (PObj True) = Inr False \<and>
   is_ident_char (PObj True) = Inr False"
  using non_character_classifiers [of PNone] non_character_classifiers [of "PObj True"]
  by simp

section \<open>The input cursor\<close>

lemma head_inside:
  "head \<lparr>message = s, index = int i\<rparr> = Inr (char_at s i)"
  by (simp add: head_def is_cont_def str_getitem_def char_at_def)

lemma step_inside:
  "step \<lparr>message = s, index = int i\<rparr> =
     (Inr (char_at s (Suc i)), \<lparr>message = s, index = int (Suc i)\<rparr>)"
proof -
  have "\<lparr>message = s, index = int i\<rparr>\<lparr>index := index \<lparr>message = s, index = int i\<rparr> + 1\<rparr>
        = \<lparr>message = s, index = int (Suc i)\<rparr>"
    by simp
  then show ?thesis
    by (simp only: step_def Let_def head_inside)
qed

lemma run_from:
  "run cs \<lparr>message = s, index = int i\<rparr> =
     Inr (expected s i cs, \<lparr>message = s, index = int (i + steps cs)\<rparr>)"
proof (induction cs arbitrary: i)
  case Nil
  show ?case by simp
next
  case (Cons c cs)
  show ?case
  proof (cases c)
    case Head
    then show ?thesis by (simp add: head_inside Cons.IH)
  next
    case Step
    have "run (Step # cs) \<lparr>message = s, index = int i\<rparr> =
          Inr (char_at s (Suc i) # expected s (Suc i) cs,
               \<lparr>message = s, index = int (Suc i + steps cs)\<rparr>)"
      by (simp only: run.simps step_inside Cons.IH [of "Suc i"] prod.case sum.case)
    with Step show ?thesis by simp
  qed
qed

text \<open>
  Claim C10. The cursor is total. Whatever calls of \<open>head\<close> and \<open>step\<close> are made on a new
  \<open>InputMessage\<close>, in whatever order, none raises: each returns the character at the
  current index when the index is inside the message and the empty string otherwise, and
  the index ends at the number of steps made. A step always adds exactly one to the index
  and leaves the message alone; when that takes the index to the end of the message or
  past it, the step returns the empty string, \<open>head\<close> returns the empty string and
  \<open>is_cont\<close> is false.
\<close>

theorem cursor_total:
  "run cs (InputMessage_init s) =
     Inr (expected s 0 cs, \<lparr>message = s, index = int (steps cs)\<rparr>)
   \<and> index (snd (step m)) = index m + 1
   \<and> message (snd (step m)) = message m
   \<and> (int (length (message m)) \<le> index m + 1 \<longrightarrow>
        fst (step m) = Inr [] \<and> head (snd (step m)) = Inr [] \<and> \<not> is_cont (snd (step m)))"
proof -
  have a: "run cs (InputMessage_init s) =
     Inr (expected s 0 cs, \<lparr>message = s, index = int (steps cs)\<rparr>)"
    using run_from [of cs s 0] by (simp add: InputMessage_init_def)
  have b: "index (snd (step m)) = index m + 1" "message (snd (step m)) = message m"
    by (simp_all add: step_def Let_def)
  have c: "int (length (message m)) \<le> index m + 1 \<longrightarrow>
        fst (step m) = Inr [] \<and> head (snd (step m)) = Inr [] \<and> \<not> is_cont (snd (step m))"
    by (simp add: step_def Let_def head_def is_cont_def)
  from a b c show ?thesis by simp
qed

theorem cursor_total_witness:
  "run [Head, Step, Head, Step, Step, Head] (InputMessage_init ''ab'') =
     Inr ([''a'', ''b'', ''b'', [], [], []], \<lparr>message = ''ab'', index = 3\<rparr>)
   \<and> int (length (message \<lparr>message = ''ab'', index = 1\<rparr>)) \<le> index \<lparr>message = ''ab'', index = 1\<rparr> + 1
   \<and> fst (step \<lparr>message = ''ab'', index = 1\<rparr>) = Inr []
   \<and> \<not> is_cont (snd (step \<lparr>message = ''ab'', index = 1\<rparr>))"
  using cursor_total [of "[Head, Step, Head, Step, Step, Head]" "''ab''"
      "\<lparr>message = ''ab'', index = 1\<rparr>"]
  by (simp add: char_at_def)

section \<open>Numbers\<close>

lemma digit_value_digit_char: "d < 10 \<Longrightarrow> digit_value (digit_char d) = d"
proof -
  assume "d < 10"
  then have "d = 0 \<or> d = 1 \<or> d = 2 \<or> d = 3 \<or> d = 4 \<or> d = 5 \<or> d = 6 \<or> d = 7 \<or> d = 8 \<or> d = 9"
    by arith
  then show ?thesis
    by (elim disjE) (simp_all add: digit_value_def digit_char_def)
qed

lemma str_nat_small: "n < 10 \<Longrightarrow> str_nat n = [digit_char n]"
  by (subst str_nat.simps) simp

lemma str_nat_big: "\<not> n < 10 \<Longrightarrow> str_nat n = str_nat (n div 10) @ [digit_char (n mod 10)]"
  by (subst str_nat.simps) simp

lemma decimal_value_snoc: "decimal_value (s @ [c]) = 10 * decimal_value s + digit_value c"
  by (simp add: decimal_value_def)

lemma decimal_value_str_nat: "decimal_value (str_nat n) = n"
proof (induction n rule: str_nat.induct)
  case (1 n)
  show ?case
  proof (cases "n < 10")
    case True
    then show ?thesis
      by (simp add: str_nat_small decimal_value_def digit_value_digit_char)
  next
    case False
    then have "decimal_value (str_nat (n div 10)) = n div 10"
      using "1.IH" by simp
    then show ?thesis
      using False by (simp add: str_nat_big decimal_value_snoc digit_value_digit_char)
  qed
qed

lemma number_writer_eq:
  "NumberWriter_write n = (if num_truthy n then str_num n else [])"
  by (simp add: NumberWriter_write_def create_def append_num_def)

lemma digit_char_in_digits: "d < 10 \<Longrightarrow> digit_char d \<in> set ''0123456789''"
  unfolding digit_char_def by (rule nth_mem) simp

lemma str_nat_is_digit_string: "is_digit_string (str_nat n)"
proof (induction n rule: str_nat.induct)
  case (1 n)
  show ?case
  proof (cases "n < 10")
    case True
    then show ?thesis
      using digit_char_in_digits [of n] by (simp add: str_nat_small is_digit_string_def)
  next
    case False
    then have "is_digit_string (str_nat (n div 10))"
      using "1.IH" by simp
    moreover have "digit_char (n mod 10) \<in> set ''0123456789''"
      by (rule digit_char_in_digits) simp
    ultimately show ?thesis
      using False by (simp add: str_nat_big is_digit_string_def)
  qed
qed

lemma digit_string_decimal: "is_digit_string s \<Longrightarrow> spec_decimal_text s"
proof (cases s)
  case Nil
  assume "is_digit_string s"
  with Nil show ?thesis by (simp add: is_digit_string_def)
next
  case (Cons c cs)
  assume d: "is_digit_string s"
  with Cons have "c \<in> set ''0123456789''" by (simp add: is_digit_string_def)
  then have "c \<noteq> CHR ''-''" by auto
  with Cons d show ?thesis
    by (simp add: spec_decimal_text_def spec_unsigned_decimal_def)
qed

lemma str_int_decimal_text: "spec_decimal_text (str_int i)"
proof (cases "i < 0")
  case True
  then show ?thesis
    using str_nat_is_digit_string [of "nat (- i)"]
    by (simp add: str_int_def spec_decimal_text_def spec_unsigned_decimal_def)
next
  case False
  then show ?thesis
    using digit_string_decimal [OF str_nat_is_digit_string [of "nat i"]]
    by (simp add: str_int_def)
qed

text \<open>
  Claim C3, as stated, fails. \<open>True\<close> is a non-zero int and is written as \<open>True\<close>; the
  float infinity is written as \<open>inf\<close> and the float \<open>0.00001\<close> as \<open>1e-05\<close>. None of these
  texts is a decimal representation.
\<close>

theorem number_writer_counterexample:
  "NumberWriter_write (PyBool True) = ''True'' \<and> \<not> spec_decimal_text ''True''
   \<and> NumberWriter_write (PyFloatNum (FloatInf False)) = ''inf'' \<and> \<not> spec_decimal_text ''inf''
   \<and> NumberWriter_write (PyFloatNum (FloatFinite False ''1'' (- 4))) = ''1e-05''
   \<and> \<not> spec_decimal_text ''1e-05''"
  by (simp add: number_writer_eq float_digits_def exponent_digits_def str_nat.simps
      digit_char_def spec_decimal_text_def spec_unsigned_decimal_def is_digit_string_def)

text \<open>
  Claim C3, amended. Writing a number that is false in a condition (\<open>0\<close>, \<open>False\<close>, \<open>0.0\<close>,
  \<open>-0.0\<close>) produces the empty string; writing any other number produces \<open>str\<close> of it.
  For an int that is not a bool this is its decimal representation: the digits that read
  back as its absolute value, after a minus sign when it is negative. For \<open>True\<close> it is
  the text \<open>True\<close>, and for a float it is Python's text of the float.
\<close>

theorem number_writer:
  "NumberWriter_write n = (if num_truthy n then str_num n else [])
   \<and> write_value (Num n) = Inr (Some (NumberWriter_write n))
   \<and> NumberWriter_write (PyInt i) = (if i = 0 then [] else str_int i)
   \<and> spec_decimal_text (str_int i)
   \<and> str_int i = (if i < 0 then CHR ''-'' # str_nat (nat (- i)) else str_nat (nat i))
   \<and> decimal_value (str_nat (nat \<bar>i\<bar>)) = nat \<bar>i\<bar>
   \<and> NumberWriter_write (PyBool b) = (if b then ''True'' else [])
   \<and> NumberWriter_write (PyFloatNum f) = (if float_nonzero f then float_str f else [])"
proof -
  have a: "NumberWriter_write n = (if num_truthy n then str_num n else [])"
    by (rule number_writer_eq)
  have b: "write_value (Num n) = Inr (Some (NumberWriter_write n))"
    by (simp add: write_number_def)
  have c: "NumberWriter_write (PyInt i) = (if i = 0 then [] else str_int i)"
    by (simp add: number_writer_eq)
  have d: "spec_decimal_text (str_int i)"
    by (rule str_int_decimal_text)
  have e: "str_int i = (if i < 0 then CHR ''-'' # str_nat (nat (- i)) else str_nat (nat i))"
    by (rule str_int_def)
  have f: "decimal_value (str_nat (nat \<bar>i\<bar>)) = nat \<bar>i\<bar>"
    by (rule decimal_value_str_nat)
  have g: "NumberWriter_write (PyBool b) = (if b then ''True'' else [])"
    by (simp add: number_writer_eq)
  have h: "NumberWriter_write (PyFloatNum f) = (if float_nonzero f then float_str f else [])"
    by (simp add: number_writer_eq)
  from a b c d e f g h show ?thesis by blast
qed

theorem number_writer_witness:
  "NumberWriter_write (PyInt 0) = [] \<and> NumberWriter_write (PyInt 42) = ''42''
   \<and> NumberWriter_write (PyInt (- 907)) = ''-907''
   \<and> NumberWriter_write (PyBool False) = []
   \<and> NumberWriter_write (PyFloatNum (FloatFinite True ''0'' 1)) = []
   \<and> NumberWriter_write (PyFloatNum (FloatFinite True ''1342'' 2)) = ''-13.42''
   \<and> NumberWriter_write (PyFloatNum (FloatFinite False ''1'' 3)) = ''100.0''"
  using number_writer [of "PyInt 0" 0 False "FloatFinite True ''0'' 1"]
    number_writer [of "PyInt 42" 42 False "FloatFinite True ''1342'' 2"]
    number_writer [of "PyInt (- 907)" "- 907" False "FloatFinite False ''1'' 3"]
  by (simp add: str_int_def digit_char_def str_nat.simps float_digits_def numeral_2_eq_2)

section \<open>Attributes\<close>

lemma is_ident_tag: "is_ident ''tag'' = Inr True"
  by (simp add: is_ident_spec spec_ident_start_def spec_ident_cont_def)

lemma attr_extant:
  "write_value k = Inr kt \<Longrightarrow> AttrWriter_write k Extant = Inr (append_message ''@'' kt)"
  by (simp add: create_def append_str_def)

lemma attr_with_items:
  "write_value k = Inr kt \<Longrightarrow> write_value v = Inr vt \<Longrightarrow> v \<noteq> Extant \<Longrightarrow> Value_size v \<noteq> 0 \<Longrightarrow>
     AttrWriter_write k v =
       Inr (append_message (append_message ''@'' kt @ ''('') vt @ '')'')"
  by (simp add: create_def append_str_def)

lemma attr_without_items:
  "write_value k = Inr kt \<Longrightarrow> write_value v = Inr vt \<Longrightarrow> v \<noteq> Extant \<Longrightarrow> Value_size v = 0 \<Longrightarrow>
     AttrWriter_write k v = Inr (append_message ''@'' kt @ ''('')"
  by (simp add: create_def append_str_def)

text \<open>
  Claim C2 at \<open>Attr("tag", Record[])\<close>. The claim expects \<open>@tag()\<close>. The attribute writer
  appends the opening parenthesis, finds size 0 and returns at once: the result is
  \<open>@tag(\<close>, with no closing parenthesis. With Extant as the value the result is \<open>@tag\<close>.
\<close>

theorem attr_empty_record:
  "AttrWriter_write (Text ''tag'') (Record []) = Inr ''@tag(''
   \<and> write_item (Attr (Text ''tag'') (Record [])) = Inr ''@tag(''
   \<and> AttrWriter_write (Text ''tag'') Extant = Inr ''@tag''"
  by (simp add: write_text_def is_ident_tag IdentWriter_write_def append_text_def create_def
      append_str_def)

section \<open>Writing and parsing back\<close>

text \<open>
  Claim C1 at \<open>Num(0)\<close>. The parser produces \<open>Num(0)\<close> and it produces Absent (its tests
  \<open>test_parse_number_empty\<close> and \<open>test_parse_literal_empty_empty_builder\<close> expect them).
  The writer gives both the same empty text, so no parser, whatever it does with the empty
  text, returns each of them from its own writing.
\<close>

theorem roundtrip_zero:
  "write_value (Num (PyInt 0)) = Inr (Some []) \<and> write_value Absent = Inr (Some [])
   \<and> \<not> (\<exists>parse. parse (write_value (Num (PyInt 0))) = Num (PyInt 0)
                 \<and> parse (write_value Absent) = Absent)"
  by (simp add: write_number_def number_writer_eq write_absent_def create_def)

section \<open>Retry strategies\<close>

lemma retry_base: "retry RetryStrategy = (False, None, RetryStrategy)"
  by simp

lemma retry_interval:
  "retry (IntervalStrategy lim d r) =
     (if spec_retry_allowed lim r then (True, Some d, IntervalStrategy lim d (Suc r))
      else (False, None, IntervalStrategy lim d r))"
  by (simp add: spec_retry_allowed_def split: option.splits)

lemma retry_exponential:
  "retry (ExponentialStrategy lim m r) =
     (if spec_retry_allowed lim r \<or> lim = Some (int r)
      then (True, Some (min (2 ^ r) m), ExponentialStrategy lim m (Suc r))
      else (False, None, ExponentialStrategy lim m r))"
  by (auto simp add: spec_retry_allowed_def split: option.splits)

text \<open>
  Claim C4 at \<open>ExponentialStrategy(retries_limit=0)\<close>. No retry has been made and the limit
  is 0, so the number of retries is not strictly below the limit and the claim expects
  \<open>False\<close>, as \<open>IntervalStrategy(retries_limit=0)\<close> returns. The exponential strategy
  compares with \<open>>=\<close>: it sleeps one second, counts the retry and returns \<open>True\<close>.
\<close>

theorem exponential_limit_zero:
  "retry (ExponentialStrategy (Some 0) 16 0) = (True, Some 1, ExponentialStrategy (Some 0) 16 1)
   \<and> \<not> spec_retry_allowed (Some 0) 0
   \<and> retry (IntervalStrategy (Some 0) 3 0) = (False, None, IntervalStrategy (Some 0) 3 0)"
  by (simp add: spec_retry_allowed_def)

section \<open>The connection pool\<close>

lemma map_of_dict_set: "map_of (dict_set d k v) = (map_of d)(k \<mapsto> v)"
  by (induction d k v rule: dict_set.induct) auto

lemma list_all_dict_set:
  "list_all P d \<Longrightarrow> P (k, v) \<Longrightarrow> list_all P (dict_set d k v)"
  by (induction d k v rule: dict_set.induct) auto

lemma wf_pool_lookup:
  "wf_pool p \<Longrightarrow> map_of (connections p) h = Some r \<Longrightarrow> r < length (store p)"
  unfolding wf_pool_def list_all_iff by (auto dest: map_of_SomeD)

lemma get_connection_cases:
  "get_connection p h s kl ks =
     (if pooled_open p h then (the (map_of (connections p) h), p)
      else (length (store p), new_pool p h s kl ks))"
  by (simp add: get_connection_def pooled_open_def new_pool_def split: option.splits)

lemma get_connection_wf:
  assumes "wf_pool p"
  shows "wf_pool (snd (get_connection p h s kl ks))"
proof (cases "pooled_open p h")
  case True
  then show ?thesis using assms by (simp add: get_connection_cases)
next
  case False
  have "list_all (\<lambda>(h, r). r < Suc (length (store p))) (connections p)"
    using assms unfolding wf_pool_def list_all_iff by auto
  then have "list_all (\<lambda>(h, r). r < Suc (length (store p)))
               (dict_set (connections p) h (length (store p)))"
    by (rule list_all_dict_set) simp
  then show ?thesis using False
    by (simp add: get_connection_cases new_pool_def wf_pool_def)
qed

lemma get_connection_in_store:
  assumes "wf_pool p"
  shows "fst (get_connection p h s kl ks) < length (store (snd (get_connection p h s kl ks)))"
proof (cases "pooled_open p h")
  case True
  then obtain r where "map_of (connections p) h = Some r"
    by (auto simp add: pooled_open_def split: option.splits)
  then show ?thesis using True wf_pool_lookup [OF assms]
    by (simp add: get_connection_cases)
next
  case False
  then show ?thesis by (simp add: get_connection_cases new_pool_def)
qed

lemma get_connection_result:
  assumes wf: "wf_pool p" and g: "get_connection p h s kl ks = (r, p')"
  shows "(map_of (connections p) h = Some r) = pooled_open p h
    \<and> (pooled_open p h \<longrightarrow> p' = p)
    \<and> (\<not> pooled_open p h \<longrightarrow>
         r = length (store p) \<and> store p' = store p @ [WSConnection_init h s kl ks] \<and>
         map_of (connections p') = (map_of (connections p))(h \<mapsto> r) \<and>
         retry_strategy p' = retry_strategy p \<and>
         status (store p' ! r) = CLOSED \<and> websocket (store p' ! r) = None \<and>
         \<not> connected (store p' ! r))
    \<and> (\<forall>i < length (store p). store p' ! i = store p ! i)"
proof (cases "pooled_open p h")
  case True
  then obtain r0 where "map_of (connections p) h = Some r0"
    by (auto simp add: pooled_open_def split: option.splits)
  then show ?thesis using True g by (auto simp add: get_connection_cases)
next
  case False
  have "map_of (connections p) h \<noteq> Some (length (store p))"
    using wf_pool_lookup [OF wf, of h "length (store p)"] by auto
  then show ?thesis using False g
    by (auto simp add: get_connection_cases new_pool_def map_of_dict_set WSConnection_init_def
        nth_append)
qed

text \<open>
  Claim C6. In a pool whose dictionary names connections that exist, \<open>get_connection\<close> for
  a host returns the connection the pool holds for that host if and only if there is one
  and its status is not \<open>CLOSED\<close>, and then the pool is unchanged. Otherwise it constructs
  a connection, which is a new object, stores it under the host, changes no other entry
  and returns it. In both cases every connection that existed is as it was, and a new
  connection is \<open>CLOSED\<close> with no socket: the call opens nothing.
\<close>

theorem get_connection_pool:
  "wf_pool p \<Longrightarrow> get_connection p h s kl ks = (r, p') \<Longrightarrow>
     (map_of (connections p) h = Some r) = pooled_open p h
     \<and> (pooled_open p h \<longrightarrow> p' = p)
     \<and> (\<not> pooled_open p h \<longrightarrow>
          r = length (store p) \<and> store p' = store p @ [WSConnection_init h s kl ks] \<and>
          map_of (connections p') = (map_of (connections p))(h \<mapsto> r) \<and>
          retry_strategy p' = retry_strategy p \<and>
          status (store p' ! r) = CLOSED \<and> websocket (store p' ! r) = None \<and>
          \<not> connected (store p' ! r))
     \<and> (\<forall>i < length (store p). store p' ! i = store p ! i)"
  by (rule get_connection_result)

theorem get_connection_pool_witness:
  "wf_pool \<lparr>connections = [(''ws://a'', 0)], retry_strategy = RetryStrategy,
            store = [(WSConnection_init ''ws://a'' ''ws'' False False)\<lparr>status := IDLE\<rparr>]\<rparr>
   \<and> get_connection
        \<lparr>connections = [(''ws://a'', 0)], retry_strategy = RetryStrategy,
         store = [(WSConnection_init ''ws://a'' ''ws'' False False)\<lparr>status := IDLE\<rparr>]\<rparr>
        ''ws://a'' ''ws'' True True
      = (0, \<lparr>connections = [(''ws://a'', 0)], retry_strategy = RetryStrategy,
             store = [(WSConnection_init ''ws://a'' ''ws'' False False)\<lparr>status := IDLE\<rparr>]\<rparr>)
   \<and> pooled_open
        \<lparr>connections = [(''ws://a'', 0)], retry_strategy = RetryStrategy,
         store = [(WSConnection_init ''ws://a'' ''ws'' False False)\<lparr>status := IDLE\<rparr>]\<rparr>
        ''ws://a''"
  using get_connection_pool
    [of "\<lparr>connections = [(''ws://a'', 0)], retry_strategy = RetryStrategy,
          store = [(WSConnection_init ''ws://a'' ''ws'' False False)\<lparr>status := IDLE\<rparr>]\<rparr>"
        "''ws://a''" "''ws''" True True 0
        "\<lparr>connections = [(''ws://a'', 0)], retry_strategy = RetryStrategy,
          store = [(WSConnection_init ''ws://a'' ''ws'' False False)\<lparr>status := IDLE\<rparr>]\<rparr>"]
  by (simp add: wf_pool_def get_connection_def pooled_open_def WSConnection_init_def)

section \<open>Reconnecting\<close>

lemma open_loop_flags:
  "open_loop c rs net = Some (res, c', rs', net') \<Longrightarrow>
     keep_linked c' = keep_linked c \<and> keep_synced c' = keep_synced c"
proof (induction c rs net rule: open_loop.induct)
  case (1 c rs)
  then show ?case by simp
next
  case (2 c rs ok net)
  then show ?case by (auto simp add: should_reconnect_def split: if_splits)
qed

lemma open_flags:
  "WSConnection_open c rs net = Some (res, c', rs', net') \<Longrightarrow>
     keep_linked c' = keep_linked c \<and> keep_synced c' = keep_synced c"
  by (auto simp add: WSConnection_open_def split: if_splits option.splits sum.splits
      dest!: open_loop_flags)

lemma subscribe_flags:
  "subscribe c rs view net = Some (res, c', rs', net') \<Longrightarrow>
     keep_linked c' = keep_linked c \<and> keep_synced c' = keep_synced c"
  by (auto simp add: subscribe_def split: if_splits option.splits sum.splits
      dest!: open_flags)

lemma get_connection_flags:
  assumes wf: "wf_pool p"
  shows "should_reconnect (store (snd (get_connection p h s kl ks)) ! fst (get_connection p h s kl ks)) =
     (if pooled_open p h then should_reconnect (store p ! the (map_of (connections p) h))
      else (kl \<or> ks))"
  by (simp add: get_connection_cases new_pool_def should_reconnect_def WSConnection_init_def)

lemma add_downlink_view_flags:
  assumes wf: "wf_pool p"
    and a: "add_downlink_view p view net = Some (res, p', net')"
  shows "should_reconnect (store p' ! fst (get_connection p (view_host_uri view) (view_scheme view)
             (view_keep_linked view) (view_keep_synced view))) =
     (if pooled_open p (view_host_uri view)
      then should_reconnect (store p ! the (map_of (connections p) (view_host_uri view)))
      else (view_keep_linked view \<or> view_keep_synced view))"
proof -
  let ?g = "get_connection p (view_host_uri view) (view_scheme view)
             (view_keep_linked view) (view_keep_synced view)"
  obtain r p1 where g: "?g = (r, p1)" by (cases ?g)
  have r: "r < length (store p1)"
    using get_connection_in_store [OF wf, of "view_host_uri view" "view_scheme view"
        "view_keep_linked view" "view_keep_synced view"] g by simp
  from a g obtain sres c' rs' where
    s: "subscribe (store p1 ! r) (retry_strategy p1) view net = Some (sres, c', rs', net')"
    and p': "store p' = (store p1)[r := c']"
    by (auto simp add: add_downlink_view_def split: option.splits sum.splits)
  have "should_reconnect c' = should_reconnect (store p1 ! r)"
    using subscribe_flags [OF s] by (simp add: should_reconnect_def)
  moreover have "store p' ! r = c'" using p' r by simp
  moreover have "should_reconnect (store p1 ! r) =
     (if pooled_open p (view_host_uri view)
      then should_reconnect (store p ! the (map_of (connections p) (view_host_uri view)))
      else (view_keep_linked view \<or> view_keep_synced view))"
    using get_connection_flags [OF wf, of "view_host_uri view" "view_scheme view"
        "view_keep_linked view" "view_keep_synced view"] g by simp
  ultimately show ?thesis using g by simp
qed

text \<open>
  The condition on the pool holds of a new pool and is kept by every addition of a view.
\<close>

lemma wf_pool_init: "wf_pool (ConnectionPool_init rs)"
  by (simp add: wf_pool_def ConnectionPool_init_def)

lemma add_downlink_view_wf:
  assumes wf: "wf_pool p"
    and a: "add_downlink_view p view net = Some (res, p', net')"
  shows "wf_pool p'"
proof -
  let ?g = "get_connection p (view_host_uri view) (view_scheme view)
             (view_keep_linked view) (view_keep_synced view)"
  obtain r p1 where g: "?g = (r, p1)" by (cases ?g)
  have wf1: "wf_pool p1"
    using get_connection_wf [OF wf, of "view_host_uri view" "view_scheme view"
        "view_keep_linked view" "view_keep_synced view"] g by simp
  from a g obtain c' where "connections p' = connections p1"
    and "store p' = (store p1)[r := c']"
    by (auto simp add: add_downlink_view_def split: option.splits sum.splits)
  then show ?thesis using wf1 by (simp add: wf_pool_def)
qed

lemma first_view_added:
  "add_downlink_view (ConnectionPool_init RetryStrategy)
      \<lparr>view_hash = 11, view_host_uri = ''ws://h'', view_scheme = ''ws'', view_keep_linked = False,
           view_keep_synced = False, view_route = ''n/l''\<rparr> [True] =
   Some (Inr 0,
     \<lparr>connections = [(''ws://h'', 0)], retry_strategy = RetryStrategy,
      store = [\<lparr>host_uri = ''ws://h'', scheme = ''ws'', connected = True,
                websocket = Some ''ws://h'', status = IDLE, auth_message = None,
                init_message = None, keep_linked = False, keep_synced = False,
                subscribers = [(''n/l'', [(11, \<lparr>view_hash = 11, view_host_uri = ''ws://h'', view_scheme = ''ws'', view_keep_linked = False,
           view_keep_synced = False, view_route = ''n/l''\<rparr>)])], authenticated = False\<rparr>]\<rparr>, [])"
  by (simp add: add_downlink_view_def get_connection_def ConnectionPool_init_def
      WSConnection_init_def subscribe_def WSConnection_open_def register_downlink_view_def)

lemma second_view_added:
  "add_downlink_view
     \<lparr>connections = [(''ws://h'', 0)], retry_strategy = RetryStrategy,
      store = [\<lparr>host_uri = ''ws://h'', scheme = ''ws'', connected = True,
                websocket = Some ''ws://h'', status = IDLE, auth_message = None,
                init_message = None, keep_linked = False, keep_synced = False,
                subscribers = [(''n/l'', [(11, \<lparr>view_hash = 11, view_host_uri = ''ws://h'', view_scheme = ''ws'', view_keep_linked = False,
           view_keep_synced = False, view_route = ''n/l''\<rparr>)])], authenticated = False\<rparr>]\<rparr>
      \<lparr>view_hash = 12, view_host_uri = ''ws://h'', view_scheme = ''ws'', view_keep_linked = True,
           view_keep_synced = False, view_route = ''n/l''\<rparr> [] =
   Some (Inr 0,
     \<lparr>connections = [(''ws://h'', 0)], retry_strategy = RetryStrategy,
      store = [\<lparr>host_uri = ''ws://h'', scheme = ''ws'', connected = True,
                websocket = Some ''ws://h'', status = IDLE, auth_message = None,
                init_message = None, keep_linked = False, keep_synced = False,
                subscribers = [(''n/l'', [(11, \<lparr>view_hash = 11, view_host_uri = ''ws://h'', view_scheme = ''ws'', view_keep_linked = False,
           view_keep_synced = False, view_route = ''n/l''\<rparr>), (12, \<lparr>view_hash = 12, view_host_uri = ''ws://h'', view_scheme = ''ws'', view_keep_linked = True,
           view_keep_synced = False, view_route = ''n/l''\<rparr>)])], authenticated = False\<rparr>]\<rparr>, [])"
  by (simp add: add_downlink_view_def get_connection_def
      subscribe_def register_downlink_view_def)

text \<open>
  Claim C5, as stated, fails. A view that asks for neither persistence subscribes first to
  a new pool, and its connection opens; a view on the same host with \<open>keep_linked\<close> set
  subscribes second. Both are then subscribers of the one connection, the OR of their
  \<open>keep_linked\<close> flags is true, and \<open>should_reconnect\<close> is false: the connection keeps the
  flags it was constructed with.
\<close>

theorem late_subscriber_counterexample:
  "current_subscribers (store (fst (snd (the (add_downlink_view
        (fst (snd (the (add_downlink_view (ConnectionPool_init RetryStrategy)
          \<lparr>view_hash = 11, view_host_uri = ''ws://h'', view_scheme = ''ws'', view_keep_linked = False,
           view_keep_synced = False, view_route = ''n/l''\<rparr> [True]))))
          \<lparr>view_hash = 12, view_host_uri = ''ws://h'', view_scheme = ''ws'', view_keep_linked = True,
           view_keep_synced = False, view_route = ''n/l''\<rparr> [])))) ! 0) =
     [\<lparr>view_hash = 11, view_host_uri = ''ws://h'', view_scheme = ''ws'', view_keep_linked = False,
           view_keep_synced = False, view_route = ''n/l''\<rparr>,
      \<lparr>view_hash = 12, view_host_uri = ''ws://h'', view_scheme = ''ws'', view_keep_linked = True,
           view_keep_synced = False, view_route = ''n/l''\<rparr>]
   \<and> spec_keep_linked (store (fst (snd (the (add_downlink_view
        (fst (snd (the (add_downlink_view (ConnectionPool_init RetryStrategy)
          \<lparr>view_hash = 11, view_host_uri = ''ws://h'', view_scheme = ''ws'', view_keep_linked = False,
           view_keep_synced = False, view_route = ''n/l''\<rparr> [True]))))
          \<lparr>view_hash = 12, view_host_uri = ''ws://h'', view_scheme = ''ws'', view_keep_linked = True,
           view_keep_synced = False, view_route = ''n/l''\<rparr> [])))) ! 0)
   \<and> \<not> should_reconnect (store (fst (snd (the (add_downlink_view
        (fst (snd (the (add_downlink_view (ConnectionPool_init RetryStrategy)
          \<lparr>view_hash = 11, view_host_uri = ''ws://h'', view_scheme = ''ws'', view_keep_linked = False,
           view_keep_synced = False, view_route = ''n/l''\<rparr> [True]))))
          \<lparr>view_hash = 12, view_host_uri = ''ws://h'', view_scheme = ''ws'', view_keep_linked = True,
           view_keep_synced = False, view_route = ''n/l''\<rparr> [])))) ! 0)"
  by (simp add: first_view_added second_view_added current_subscribers_def spec_keep_linked_def
      should_reconnect_def)

text \<open>
  Claim C5, amended. \<open>should_reconnect\<close> is true if and only if \<open>keep_linked\<close> or
  \<open>keep_synced\<close>, and these two flags are the ones the connection was constructed with:
  after a view has been added to a pool, its connection answers as it did before when the
  pool already held an open connection for the host, and answers with the OR of the
  view's own two flags when the connection was constructed for this view.
\<close>

theorem should_reconnect_flags:
  "should_reconnect c = (keep_linked c \<or> keep_synced c)
   \<and> (wf_pool p \<longrightarrow> add_downlink_view p view net = Some (Inr r, p', net') \<longrightarrow>
        should_reconnect (store p' ! r) =
          (if pooled_open p (view_host_uri view)
           then should_reconnect (store p ! the (map_of (connections p) (view_host_uri view)))
           else (view_keep_linked view \<or> view_keep_synced view)))"
proof -
  have "r = fst (get_connection p (view_host_uri view) (view_scheme view)
             (view_keep_linked view) (view_keep_synced view))"
    if "add_downlink_view p view net = Some (Inr r, p', net')"
    using that by (auto simp add: add_downlink_view_def split: prod.splits option.splits sum.splits)
  then show ?thesis
    using add_downlink_view_flags [of p view net "Inr r" p' net']
    by (auto simp add: should_reconnect_def)
qed

theorem should_reconnect_flags_witness:
  "wf_pool (ConnectionPool_init RetryStrategy)
   \<and> add_downlink_view (ConnectionPool_init RetryStrategy)
      \<lparr>view_hash = 12, view_host_uri = ''ws://h'', view_scheme = ''ws'', view_keep_linked = True,
           view_keep_synced = False, view_route = ''n/l''\<rparr> [True] \<noteq> None
   \<and> should_reconnect (store (fst (snd (the (add_downlink_view (ConnectionPool_init RetryStrategy)
      \<lparr>view_hash = 12, view_host_uri = ''ws://h'', view_scheme = ''ws'', view_keep_linked = True,
           view_keep_synced = False, view_route = ''n/l''\<rparr> [True])))) ! 0)"
  using should_reconnect_flags [of _ "ConnectionPool_init RetryStrategy"
      "\<lparr>view_hash = 12, view_host_uri = ''ws://h'', view_scheme = ''ws'', view_keep_linked = True,
           view_keep_synced = False, view_route = ''n/l''\<rparr>" "[True]" 0
      "fst (snd (the (add_downlink_view (ConnectionPool_init RetryStrategy)
      \<lparr>view_hash = 12, view_host_uri = ''ws://h'', view_scheme = ''ws'', view_keep_linked = True,
           view_keep_synced = False, view_route = ''n/l''\<rparr> [True])))" "[]"]
  by (simp add: add_downlink_view_def get_connection_def ConnectionPool_init_def
      WSConnection_init_def subscribe_def WSConnection_open_def register_downlink_view_def
      wf_pool_def pooled_open_def should_reconnect_def)

section \<open>Value downlink views\<close>

text \<open>
  Claim C9, as stated, fails. A view that has just been opened is open while its model is
  still \<open>None\<close>; \<open>get(wait_sync=False)\<close> then reads \<open>value\<close> of \<open>None\<close> and raises
  \<open>AttributeError\<close> instead of returning a value.
\<close>

theorem open_view_without_model:
  "is_open \<lparr>client = \<lparr>debug = False, terminate_on_exception = False, execute_on_exception = False,
          scheduled = [], warnings = 0, tracebacks = 0, callbacks_run = 0, exited = False\<rparr>,
        vd_host_uri = None, node_uri = Some ''n'', lane_uri = Some ''l'', is_open = True,
        initialised = False, model = (None :: int ValueDownlinkModel option), connection = None\<rparr>
   \<and> ValueDownlinkView_get
       \<lparr>client = \<lparr>debug = False, terminate_on_exception = False, execute_on_exception = False,
          scheduled = [], warnings = 0, tracebacks = 0, callbacks_run = 0, exited = False\<rparr>,
        vd_host_uri = None, node_uri = Some ''n'', lane_uri = Some ''l'', is_open = True,
        initialised = False, model = (None :: int ValueDownlinkModel option), connection = None\<rparr> False None True
     = (Inl AttributeError,
        \<lparr>client = \<lparr>debug = False, terminate_on_exception = False, execute_on_exception = False,
          scheduled = [], warnings = 0, tracebacks = 0, callbacks_run = 0, exited = False\<rparr>,
        vd_host_uri = None, node_uri = Some ''n'', lane_uri = Some ''l'', is_open = True,
        initialised = False, model = (None :: int ValueDownlinkModel option), connection = None\<rparr>)"
  by (simp add: ValueDownlinkView_get_def)

text \<open>
  Claim C9, amended. On a view that is not open, \<open>get\<close> and \<open>set\<close> raise \<open>RuntimeError\<close>
  and leave the view, its client, its model and its connection as they were. On an open
  view with its model attached, \<open>get(wait_sync=False)\<close> returns the value the model holds
  and changes nothing. On an open view \<open>set(value)\<close> raises nothing; when the event loop
  takes the task, the client has scheduled the sending of one command message with the
  view's node, lane and the value, and nothing else has changed; when it does not, the
  failure goes to the client's exception handler.
\<close>

theorem closed_view_errors:
  "(\<not> is_open view \<longrightarrow>
       ValueDownlinkView_get view wait_sync handle_result accepts = (Inl RuntimeError, view) \<and>
       ValueDownlinkView_set view v accepts = (Inl RuntimeError, view))
   \<and> (is_open view \<and> model view = Some m \<longrightarrow>
       ValueDownlinkView_get view False handle_result accepts = (Inr (model_value m), view))
   \<and> (is_open view \<longrightarrow> fst (ValueDownlinkView_set view v accepts) = Inr ())
   \<and> (is_open view \<and> accepts \<longrightarrow>
       ValueDownlinkView_set view v accepts =
         (Inr (), view\<lparr>client := (client view)\<lparr>scheduled := scheduled (client view) @
            [SendMessage (CommandMessage (node_uri view) (lane_uri view) v)]\<rparr>\<rparr>))
   \<and> (is_open view \<and> \<not> accepts \<longrightarrow>
       ValueDownlinkView_set view v accepts =
         (Inr (), view\<lparr>client := handle_exception (client view)\<rparr>))"
  by (simp add: ValueDownlinkView_get_def ValueDownlinkView_set_def schedule_task_def)

theorem closed_view_errors_witness:
  "\<not> is_open \<lparr>client = \<lparr>debug = False, terminate_on_exception = False, execute_on_exception = False,
          scheduled = [], warnings = 0, tracebacks = 0, callbacks_run = 0, exited = False\<rparr>,
        vd_host_uri = None, node_uri = Some ''n'', lane_uri = Some ''l'', is_open = False,
        initialised = False, model = (None :: int ValueDownlinkModel option), connection = None\<rparr>
   \<and> ValueDownlinkView_get
       \<lparr>client = \<lparr>debug = False, terminate_on_exception = False, execute_on_exception = False,
          scheduled = [], warnings = 0, tracebacks = 0, callbacks_run = 0, exited = False\<rparr>,
        vd_host_uri = None, node_uri = Some ''n'', lane_uri = Some ''l'', is_open = False,
        initialised = False, model = (None :: int ValueDownlinkModel option), connection = None\<rparr> False None True
     = (Inl RuntimeError,
        \<lparr>client = \<lparr>debug = False, terminate_on_exception = False, execute_on_exception = False,
          scheduled = [], warnings = 0, tracebacks = 0, callbacks_run = 0, exited = False\<rparr>,
        vd_host_uri = None, node_uri = Some ''n'', lane_uri = Some ''l'', is_open = False,
        initialised = False, model = (None :: int ValueDownlinkModel option), connection = None\<rparr>)
   \<and> ValueDownlinkView_get
       \<lparr>client = \<lparr>debug = False, terminate_on_exception = False, execute_on_exception = False,
          scheduled = [], warnings = 0, tracebacks = 0, callbacks_run = 0, exited = False\<rparr>,
        vd_host_uri = None, node_uri = Some ''n'', lane_uri = Some ''l'', is_open = True,
        initialised = True, model = Some \<lparr>model_value = Some (7::int), linked = True, synced = True\<rparr>, connection = Some 0\<rparr> False None True
     = (Inr (Some 7),
        \<lparr>client = \<lparr>debug = False, terminate_on_exception = False, execute_on_exception = False,
          scheduled = [], warnings = 0, tracebacks = 0, callbacks_run = 0, exited = False\<rparr>,
        vd_host_uri = None, node_uri = Some ''n'', lane_uri = Some ''l'', is_open = True,
        initialised = True, model = Some \<lparr>model_value = Some (7::int), linked = True, synced = True\<rparr>, connection = Some 0\<rparr>)
   \<and> ValueDownlinkView_set
       \<lparr>client = \<lparr>debug = False, terminate_on_exception = False, execute_on_exception = False,
          scheduled = [], warnings = 0, tracebacks = 0, callbacks_run = 0, exited = False\<rparr>,
        vd_host_uri = None, node_uri = Some ''n'', lane_uri = Some ''l'', is_open = True,
        initialised = True, model = Some \<lparr>model_value = Some (7::int), linked = True, synced = True\<rparr>, connection = Some 0\<rparr> 9 True
     = (Inr (),
        \<lparr>client = \<lparr>debug = False, terminate_on_exception = False, execute_on_exception = False,
          scheduled = [SendMessage (CommandMessage (Some ''n'') (Some ''l'') 9)], warnings = 0, tracebacks = 0, callbacks_run = 0, exited = False\<rparr>,
        vd_host_uri = None, node_uri = Some ''n'', lane_uri = Some ''l'', is_open = True,
        initialised = True, model = Some \<lparr>model_value = Some (7::int), linked = True, synced = True\<rparr>, connection = Some 0\<rparr>)"
  using closed_view_errors
    [of "\<lparr>client = \<lparr>debug = False, terminate_on_exception = False, execute_on_exception = False,
          scheduled = [], warnings = 0, tracebacks = 0, callbacks_run = 0, exited = False\<rparr>,
        vd_host_uri = None, node_uri = Some ''n'', lane_uri = Some ''l'', is_open = False,
        initialised = False, model = (None :: int ValueDownlinkModel option), connection = None\<rparr>"
        False None True "9::int" "\<lparr>model_value = Some (7::int), linked = True, synced = True\<rparr>"]
    closed_view_errors
    [of "\<lparr>client = \<lparr>debug = False, terminate_on_exception = False, execute_on_exception = False,
          scheduled = [], warnings = 0, tracebacks = 0, callbacks_run = 0, exited = False\<rparr>,
        vd_host_uri = None, node_uri = Some ''n'', lane_uri = Some ''l'', is_open = True,
        initialised = True, model = Some \<lparr>model_value = Some (7::int), linked = True, synced = True\<rparr>, connection = Some 0\<rparr>"
        False None True "9::int" "\<lparr>model_value = Some (7::int), linked = True, synced = True\<rparr>"]
  by simp

end
